theory Spec2Isabelle
  imports Main "HOL-Library.AList"
begin

section \<open>Values\<close>

text \<open>
  Everything the manager keeps in \<open>this.topics\<close> comes out of \<open>JSON.parse\<close> or out of
  an object literal built from form fields, so the values in memory are JSON values and
  form a tree (no object is reachable twice). An object is the list of its own
  properties in insertion order; a property is looked up by \<open>map_of\<close> and written by
  \<open>AList.update\<close>, which overwrites in place when the key is there and appends it
  otherwise. An engine lists the integer-like keys of an object first; the list here
  stands for the object with the same keys and values, and every statement below is
  an equation between values or about the value of a key. A string is a list of
  characters; the manager only compares and concatenates strings. It never computes
  with a number, so an integer stands for a number.
\<close>

datatype json =
    JNull
  | JBool bool
  | JNum int
  | JStr string
  | JArr "json list"
  | JObj "(string \<times> json) list"

datatype error = TypeError | SyntaxError

text \<open>
  \<open>t.id\<close> and \<open>t.contents\<close>: reading a property of \<open>null\<close> throws a TypeError, an
  object answers with its own property or \<open>undefined\<close> (here \<open>None\<close>), and every other
  value answers \<open>undefined\<close>, since neither name is on a prototype.
\<close>

fun get_prop :: "string \<Rightarrow> json \<Rightarrow> error + json option" where
  "get_prop k JNull = Inl TypeError"
| "get_prop k (JObj kvs) = Inr (map_of kvs k)"
| "get_prop k (JBool b) = Inr None"
| "get_prop k (JNum n) = Inr None"
| "get_prop k (JStr s) = Inr None"
| "get_prop k (JArr xs) = Inr None"

text \<open>\<open>topic.name = name\<close> on the object that \<open>find\<close> returned.\<close>

fun set_prop :: "string \<Rightarrow> json \<Rightarrow> json \<Rightarrow> json" where
  "set_prop k v (JObj kvs) = JObj (AList.update k v kvs)"
| "set_prop k v t = t"

text \<open>
  \<open>Number.prototype.toString(radix)\<close> on an integer, with the digits
  \<open>0\<close>..\<open>9\<close>, \<open>a\<close>..\<open>z\<close>. The program calls it with radix 36; radix 10
  names the indices of an array.
\<close>

definition digit_char :: "nat \<Rightarrow> char" where
  "digit_char d = ''0123456789abcdefghijklmnopqrstuvwxyz'' ! d"

fun digits :: "nat \<Rightarrow> nat \<Rightarrow> string" where
  "digits b n =
     (if b < 2 \<or> n < b then [digit_char n]
      else digits b (n div b) @ [digit_char (n mod b)])"

definition toString :: "nat \<Rightarrow> int \<Rightarrow> string" where
  "toString radix i =
     (if i < 0 then CHR ''-'' # digits radix (nat (- i)) else digits radix (nat i))"

text \<open>
  The own enumerable properties that an object spread \<open>{...v}\<close> copies: those of an
  object, the indices of an array, the indices of a string (one character each), and
  nothing for \<open>null\<close>, a boolean or a number.
\<close>

fun own_props :: "json \<Rightarrow> (string \<times> json) list" where
  "own_props (JObj kvs) = kvs"
| "own_props (JArr xs) = zip (map (\<lambda>n. digits 10 n) [0..<length xs]) xs"
| "own_props (JStr s) = zip (map (\<lambda>n. digits 10 n) [0..<length s]) (map (\<lambda>c. JStr [c]) s)"
| "own_props JNull = []"
| "own_props (JBool b) = []"
| "own_props (JNum n) = []"

text \<open>\<open>{ props..., ...v }\<close>: each copied property is written in turn.\<close>

definition spread :: "json \<Rightarrow> (string \<times> json) list \<Rightarrow> (string \<times> json) list" where
  "spread v props = fold (\<lambda>(k, x). AList.update k x) (own_props v) props"

text \<open>
  \<open>xs.find(t => t.id === id)\<close> and \<open>xs.findIndex(c => c.id === id)\<close> with a string
  \<open>id\<close>: the position of the first element whose \<open>id\<close> is that string. \<open>find\<close> hands
  out the element itself, which the caller then mutates; in the model the caller
  replaces the element at the position found.
\<close>

fun findIndex :: "string \<Rightarrow> json list \<Rightarrow> error + nat option" where
  "findIndex i [] = Inr None"
| "findIndex i (t # ts) =
     (case get_prop ''id'' t of
        Inl e \<Rightarrow> Inl e
      | Inr v \<Rightarrow>
          if v = Some (JStr i) then Inr (Some 0)
          else (case findIndex i ts of
                  Inl e \<Rightarrow> Inl e
                | Inr None \<Rightarrow> Inr None
                | Inr (Some n) \<Rightarrow> Inr (Some (Suc n))))"

text \<open>\<open>xs.filter(t => t.id !== id)\<close>.\<close>

fun filter_id :: "string \<Rightarrow> json list \<Rightarrow> error + json list" where
  "filter_id i [] = Inr []"
| "filter_id i (t # ts) =
     (case get_prop ''id'' t of
        Inl e \<Rightarrow> Inl e
      | Inr v \<Rightarrow>
          (case filter_id i ts of
             Inl e \<Rightarrow> Inl e
           | Inr r \<Rightarrow> Inr (if v \<noteq> Some (JStr i) then t # r else r)))"

text \<open>\<open>xs.map(f)\<close> for a callback that may throw.\<close>

fun map_throwing :: "('a \<Rightarrow> error + 'b) \<Rightarrow> 'a list \<Rightarrow> error + 'b list" where
  "map_throwing f [] = Inr []"
| "map_throwing f (x # xs) =
     (case f x of
        Inl e \<Rightarrow> Inl e
      | Inr y \<Rightarrow> (case map_throwing f xs of Inl e \<Rightarrow> Inl e | Inr ys \<Rightarrow> Inr (y # ys)))"

section \<open>The platform and the state\<close>

text \<open>
  \<open>JSON.stringify(v)\<close>, \<open>JSON.stringify(v, null, 2)\<close> and \<open>JSON.parse\<close> belong to the
  browser, not to the repository: the operations take them as parameters.
  \<open>parse\<close> answers \<open>None\<close> where \<open>JSON.parse\<close> throws a SyntaxError.
\<close>

record json_api =
  stringify :: "json \<Rightarrow> string"
  stringify2 :: "json \<Rightarrow> string"
  parse :: "string \<Rightarrow> json option"

text \<open>
  What one call reads from the clock and the random source: \<open>Date.now()\<close>,
  the text of \<open>Math.random().toString(36)\<close> (such as \<open>0.k9\<close>), and the two
  \<open>new Date().toISOString()\<close> texts, one for \<open>createdAt\<close> and one for the
  \<open>_updated\<close> key.
\<close>

record readings =
  date_now :: int
  random36 :: string
  iso_created :: string
  iso_updated :: string

text \<open>
  The manager's state is \<open>this.topics\<close>, an array, together with \<open>localStorage\<close>.
  (The fields \<open>currentTopicId\<close>, \<open>currentContentId\<close> and \<open>editMode\<close> of two of the
  classes belong to the pages; no method of the manager reads or writes them.)
  Storage is taken to accept every write (no quota). Every exception of an operation
  is thrown before the operation has changed anything, so a result \<open>Inl e\<close> stands
  for: \<open>e\<close> was thrown and the state is the one before the call. The ids passed to
  the operations are strings, the other arguments are JSON values.
\<close>

record manager =
  topics :: "json list"
  localStorage :: "string \<rightharpoonup> string"

text \<open>
  All copies of \<open>LearningManager\<close> share the text of their methods apart from
  \<open>loadData\<close>, \<open>saveData\<close> and the import. \<open>Page\<close> is the class of the page scripts
  (key \<open>cyberlearn_data\<close>), \<open>Shared\<close> the first class of \<open>script.js\<close>
  (\<open>this.storageKey\<close>).
\<close>

datatype variant = Page | Shared

definition storageKey :: "variant \<Rightarrow> string" where
  "storageKey v = (case v of Page \<Rightarrow> ''cyberlearn_data'' | Shared \<Rightarrow> ''cyberlearn_shared_data'')"

fun saveData :: "variant \<Rightarrow> json_api \<Rightarrow> readings \<Rightarrow> manager \<Rightarrow> manager" where
  "saveData Page js r m =
     m\<lparr>localStorage := (localStorage m)(storageKey Page \<mapsto> stringify js (JArr (topics m)))\<rparr>"
| "saveData Shared js r m =
     m\<lparr>localStorage :=
         ((localStorage m)(storageKey Shared \<mapsto> stringify js (JArr (topics m))))
           (storageKey Shared @ ''_updated'' \<mapsto> iso_updated r)\<rparr>"

definition generateId :: "readings \<Rightarrow> string" where
  "generateId r = toString 36 (date_now r) @ drop 2 (random36 r)"

section \<open>Operations\<close>

text \<open>\<open>description\<close> is \<open>None\<close> when the argument is left out.\<close>

definition addTopic ::
  "variant \<Rightarrow> json_api \<Rightarrow> readings \<Rightarrow> json \<Rightarrow> json option \<Rightarrow> manager \<Rightarrow> json \<times> manager" where
  "addTopic v js r name description m =
     (let topic = JObj [(''id'', JStr (generateId r)),
                        (''name'', name),
                        (''description'', (case description of None \<Rightarrow> JStr [] | Some d \<Rightarrow> d)),
                        (''contents'', JArr []),
                        (''createdAt'', JStr (iso_created r))]
      in (topic, saveData v js r (m\<lparr>topics := topics m @ [topic]\<rparr>)))"

text \<open>
  The operations below return what the method returns (\<open>None\<close> for \<open>undefined\<close>)
  and the state.
\<close>

definition updateTopic ::
  "variant \<Rightarrow> json_api \<Rightarrow> readings \<Rightarrow> string \<Rightarrow> json \<Rightarrow> json \<Rightarrow> manager
     \<Rightarrow> error + json option \<times> manager" where
  "updateTopic v js r i name description m =
     (case findIndex i (topics m) of
        Inl e \<Rightarrow> Inl e
      | Inr None \<Rightarrow> Inr (None, m)
      | Inr (Some n) \<Rightarrow>
          (let topic = set_prop ''description'' description
                         (set_prop ''name'' name (topics m ! n))
           in Inr (None, saveData v js r (m\<lparr>topics := (topics m)[n := topic]\<rparr>))))"

definition deleteTopic ::
  "variant \<Rightarrow> json_api \<Rightarrow> readings \<Rightarrow> string \<Rightarrow> manager \<Rightarrow> error + manager" where
  "deleteTopic v js r i m =
     (case filter_id i (topics m) of
        Inl e \<Rightarrow> Inl e
      | Inr ts \<Rightarrow> Inr (saveData v js r (m\<lparr>topics := ts\<rparr>)))"

text \<open>
  \<open>topic.contents.push\<close>, \<open>.findIndex\<close> and \<open>.filter\<close> exist only when
  \<open>topic.contents\<close> is an array; on anything else the call throws a TypeError.
\<close>

definition contents_of :: "json \<Rightarrow> error + json list" where
  "contents_of topic =
     (case get_prop ''contents'' topic of
        Inr (Some (JArr cs)) \<Rightarrow> Inr cs
      | _ \<Rightarrow> Inl TypeError)"

definition addContent ::
  "variant \<Rightarrow> json_api \<Rightarrow> readings \<Rightarrow> string \<Rightarrow> json \<Rightarrow> manager
     \<Rightarrow> error + json option \<times> manager" where
  "addContent v js r topicId contentData m =
     (case findIndex topicId (topics m) of
        Inl e \<Rightarrow> Inl e
      | Inr None \<Rightarrow> Inr (None, m)
      | Inr (Some n) \<Rightarrow>
          (let topic = topics m ! n;
               content = JObj (AList.update ''createdAt'' (JStr (iso_created r))
                                 (spread contentData [(''id'', JStr (generateId r))]))
           in case contents_of topic of
                Inl e \<Rightarrow> Inl e
              | Inr cs \<Rightarrow>
                  Inr (Some content,
                       saveData v js r
                         (m\<lparr>topics := (topics m)
                               [n := set_prop ''contents'' (JArr (cs @ [content])) topic]\<rparr>))))"

definition updateContent ::
  "variant \<Rightarrow> json_api \<Rightarrow> readings \<Rightarrow> string \<Rightarrow> string \<Rightarrow> json \<Rightarrow> manager
     \<Rightarrow> error + json option \<times> manager" where
  "updateContent v js r topicId contentId contentData m =
     (case findIndex topicId (topics m) of
        Inl e \<Rightarrow> Inl e
      | Inr None \<Rightarrow> Inr (None, m)
      | Inr (Some n) \<Rightarrow>
          (let topic = topics m ! n
           in case contents_of topic of
                Inl e \<Rightarrow> Inl e
              | Inr cs \<Rightarrow>
                  (case findIndex contentId cs of
                     Inl e \<Rightarrow> Inl e
                   | Inr None \<Rightarrow> Inr (None, m)
                   | Inr (Some j) \<Rightarrow>
                       (let content = JObj (spread contentData (spread (cs ! j) []))
                        in Inr (None,
                                saveData v js r
                                  (m\<lparr>topics := (topics m)
                                        [n := set_prop ''contents'' (JArr (cs[j := content]))
                                                topic]\<rparr>))))))"

definition deleteContent ::
  "variant \<Rightarrow> json_api \<Rightarrow> readings \<Rightarrow> string \<Rightarrow> string \<Rightarrow> manager
     \<Rightarrow> error + json option \<times> manager" where
  "deleteContent v js r topicId contentId m =
     (case findIndex topicId (topics m) of
        Inl e \<Rightarrow> Inl e
      | Inr None \<Rightarrow> Inr (None, m)
      | Inr (Some n) \<Rightarrow>
          (let topic = topics m ! n
           in case contents_of topic of
                Inl e \<Rightarrow> Inl e
              | Inr cs \<Rightarrow>
                  (case filter_id contentId cs of
                     Inl e \<Rightarrow> Inl e
                   | Inr cs' \<Rightarrow>
                       Inr (None,
                            saveData v js r
                              (m\<lparr>topics := (topics m)
                                    [n := set_prop ''contents'' (JArr cs') topic]\<rparr>)))))"

section \<open>Loading, export and import\<close>

text \<open>
  The callback of \<open>parsed.map\<close> in the sanitising loader and in the import:
  \<open>{...topic, contents: Array.isArray(topic.contents) ? topic.contents : []}\<close>.
\<close>

definition sanitize :: "json \<Rightarrow> error + json" where
  "sanitize topic =
     (case get_prop ''contents'' topic of
        Inl e \<Rightarrow> Inl e
      | Inr c \<Rightarrow>
          Inr (JObj (AList.update ''contents''
                       (case c of Some (JArr cs) \<Rightarrow> JArr cs | _ \<Rightarrow> JArr [])
                       (spread topic []))))"

text \<open>
  The loader of the page scripts that parse without a guard (\<open>part_000\<close>,
  \<open>create-post.js\<close>, the second class of \<open>script.js\<close>):
  \<open>return data ? JSON.parse(data) : []\<close>. A missing key reads as \<open>null\<close> and the
  empty string is falsy too.
\<close>

definition loadData_plain :: "json_api \<Rightarrow> (string \<rightharpoonup> string) \<Rightarrow> error + json" where
  "loadData_plain js st =
     (case st ''cyberlearn_data'' of
        None \<Rightarrow> Inr (JArr [])
      | Some data \<Rightarrow>
          if data = [] then Inr (JArr [])
          else (case parse js data of
                  None \<Rightarrow> Inl SyntaxError
                | Some x \<Rightarrow> Inr x))"

text \<open>
  The loader of the home-page scripts with export and import (\<open>part_001\<close>,
  \<open>part_002\<close>): the parse and the sanitising \<open>map\<close> sit inside \<open>try\<close>, and the
  \<open>catch\<close> returns the empty list.
\<close>

definition loadData :: "json_api \<Rightarrow> (string \<rightharpoonup> string) \<Rightarrow> json list" where
  "loadData js st =
     (case st ''cyberlearn_data'' of
        None \<Rightarrow> []
      | Some data \<Rightarrow>
          if data = [] then []
          else (case parse js data of
                  None \<Rightarrow> []
                | Some (JArr ts) \<Rightarrow>
                    (case map_throwing sanitize ts of Inl e \<Rightarrow> [] | Inr ts' \<Rightarrow> ts')
                | Some _ \<Rightarrow> []))"

text \<open>
  The loader of the first class of \<open>script.js\<close>. \<open>fetched\<close> is the body of
  \<open>data.json\<close> when the fetch answered with \<open>response.ok\<close>, and \<open>None\<close> otherwise;
  \<open>try\<close> covers the fetch and \<open>response.json()\<close>, so a body that does not parse
  falls through to the storage, whose text is parsed outside \<open>try\<close>. The result is
  the value returned together with the storage; except for the final \<open>return []\<close>
  the value is also assigned to \<open>this.topics\<close>.
\<close>

definition loadData_shared ::
  "json_api \<Rightarrow> string option \<Rightarrow> (string \<rightharpoonup> string)
     \<Rightarrow> error + json \<times> (string \<rightharpoonup> string)" where
  "loadData_shared js fetched st =
     (case (case fetched of None \<Rightarrow> None | Some body \<Rightarrow> parse js body) of
        Some data \<Rightarrow> Inr (data, st(storageKey Shared \<mapsto> stringify js data))
      | None \<Rightarrow>
          (case st (storageKey Shared) of
             None \<Rightarrow> Inr (JArr [], st)
           | Some data \<Rightarrow>
               if data = [] then Inr (JArr [], st)
               else (case parse js data of
                       None \<Rightarrow> Inl SyntaxError
                     | Some x \<Rightarrow> Inr (x, st))))"

text \<open>\<open>exportData\<close>: the text of the file offered for download.\<close>

definition exportData :: "json_api \<Rightarrow> manager \<Rightarrow> string" where
  "exportData js m = stringify2 js (JArr (topics m))"

text \<open>
  \<open>importData(file, callback)\<close> of \<open>part_001\<close> and \<open>part_002\<close>, run on the text
  the file reader delivers. The first component is what the callback is called with.
  The \<open>catch\<close> also takes the TypeError of the sanitising \<open>map\<close>, which is thrown
  before \<open>this.topics\<close> is assigned.
\<close>

definition importData ::
  "json_api \<Rightarrow> readings \<Rightarrow> string \<Rightarrow> manager \<Rightarrow> (bool \<times> string) \<times> manager" where
  "importData js r text m =
     (case parse js text of
        None \<Rightarrow> ((False, ''Error reading file. Please select a valid JSON file.''), m)
      | Some (JArr ts) \<Rightarrow>
          (case map_throwing sanitize ts of
             Inl e \<Rightarrow> ((False, ''Error reading file. Please select a valid JSON file.''), m)
           | Inr ts' \<Rightarrow>
               ((True, ''Data imported successfully!''),
                saveData Page js r (m\<lparr>topics := ts'\<rparr>)))
      | Some _ \<Rightarrow>
          ((False, ''Invalid data format. Please select a valid backup file.''), m))"

text \<open>
  \<open>importData(file)\<close> of the first class of \<open>script.js\<close>: it asks with
  \<open>confirm\<close> (here \<open>confirmed\<close>), assigns the parsed array as it is, and tells
  the outcome in an \<open>alert\<close>.
\<close>

datatype import_outcome = Imported | Declined | InvalidFormat | ReadError

definition importData_shared ::
  "json_api \<Rightarrow> readings \<Rightarrow> string \<Rightarrow> bool \<Rightarrow> manager \<Rightarrow> import_outcome \<times> manager" where
  "importData_shared js r input confirmed m =
     (case parse js input of
        None \<Rightarrow> (ReadError, m)
      | Some (JArr ts) \<Rightarrow>
          if confirmed then (Imported, saveData Shared js r (m\<lparr>topics := ts\<rparr>))
          else (Declined, m)
      | Some _ \<Rightarrow> (InvalidFormat, m))"

section \<open>Predicates of the statements\<close>

text \<open>The element's \<open>id\<close> is the string \<open>i\<close>.\<close>

definition has_id :: "string \<Rightarrow> json \<Rightarrow> bool" where
  "has_id i t = (get_prop ''id'' t = Inr (Some (JStr i)))"

text \<open>An object whose \<open>contents\<close> is an array.\<close>

definition contents_is_array :: "json \<Rightarrow> bool" where
  "contents_is_array t =
     (case t of
        JObj kvs \<Rightarrow> (case map_of kvs ''contents'' of Some (JArr cs) \<Rightarrow> True | _ \<Rightarrow> False)
      | _ \<Rightarrow> False)"

text \<open>An object of the program has each property name once.\<close>

definition distinct_keys :: "json \<Rightarrow> bool" where
  "distinct_keys t = (case t of JObj kvs \<Rightarrow> distinct (map fst kvs) | _ \<Rightarrow> True)"

definition is_array :: "json \<Rightarrow> bool" where
  "is_array x = (case x of JArr xs \<Rightarrow> True | _ \<Rightarrow> False)"

text \<open>The blob under the storage key is the serialisation of the whole list.\<close>

definition persisted :: "variant \<Rightarrow> json_api \<Rightarrow> manager \<Rightarrow> bool" where
  "persisted v js m =
     (localStorage m (storageKey v) = Some (stringify js (JArr (topics m))))"

text \<open>The keys of the storage that \<open>saveData\<close> writes.\<close>

definition written_keys :: "variant \<Rightarrow> string set" where
  "written_keys v =
     (case v of
        Page \<Rightarrow> {storageKey Page}
      | Shared \<Rightarrow> {storageKey Shared, storageKey Shared @ ''_updated''})"

section \<open>A JSON writer and reader\<close>

text \<open>
  An instance of the platform for running the operations on concrete values: a
  writer of compact JSON text, a writer with an indentation of two spaces, and a
  reader of JSON text with integer numbers. No theorem about the operations depends
  on it; they hold for every \<open>json_api\<close>.
\<close>

definition escape :: "char \<Rightarrow> string" where
  "escape c =
     (if c = CHR 0x22 then [CHR 0x5C, CHR 0x22]
      else if c = CHR 0x5C then [CHR 0x5C, CHR 0x5C]
      else if c = CHR 0x0A then [CHR 0x5C, CHR ''n'']
      else if c = CHR 0x0D then [CHR 0x5C, CHR ''r'']
      else if c = CHR 0x09 then [CHR 0x5C, CHR ''t'']
      else [c])"

definition quote :: "string \<Rightarrow> string" where
  "quote s = CHR 0x22 # concat (map escape s) @ [CHR 0x22]"

fun join :: "string \<Rightarrow> string list \<Rightarrow> string" where
  "join sep [] = []"
| "join sep [x] = x"
| "join sep (x # y # ys) = x @ sep @ join sep (y # ys)"

fun json_text :: "json \<Rightarrow> string" where
  "json_text JNull = ''null''"
| "json_text (JBool b) = (if b then ''true'' else ''false'')"
| "json_text (JNum i) = toString 10 i"
| "json_text (JStr s) = quote s"
| "json_text (JArr xs) = ''['' @ join '','' (map json_text xs) @ '']''"
| "json_text (JObj kvs) =
     ''{'' @ join '','' (map (\<lambda>(k, x). quote k @ '':'' @ json_text x) kvs) @ ''}''"

definition indent :: "nat \<Rightarrow> string" where
  "indent d = CHR 0x0A # replicate (2 * d) CHR '' ''"

fun json_text2 :: "nat \<Rightarrow> json \<Rightarrow> string" where
  "json_text2 d JNull = ''null''"
| "json_text2 d (JBool b) = (if b then ''true'' else ''false'')"
| "json_text2 d (JNum i) = toString 10 i"
| "json_text2 d (JStr s) = quote s"
| "json_text2 d (JArr xs) =
     (if xs = [] then ''[]''
      else ''['' @ indent (Suc d)
           @ join ('','' @ indent (Suc d)) (map (json_text2 (Suc d)) xs)
           @ indent d @ '']'')"
| "json_text2 d (JObj kvs) =
     (if kvs = [] then ''{}''
      else ''{'' @ indent (Suc d)
           @ join ('','' @ indent (Suc d))
               (map (\<lambda>(k, x). quote k @ '': '' @ json_text2 (Suc d) x) kvs)
           @ indent d @ ''}'')"

definition is_ws :: "char \<Rightarrow> bool" where
  "is_ws c = (c = CHR '' '' \<or> c = CHR 0x0A \<or> c = CHR 0x0D \<or> c = CHR 0x09)"

definition skip_ws :: "string \<Rightarrow> string" where
  "skip_ws s = dropWhile is_ws s"

definition unescape :: "char \<Rightarrow> char option" where
  "unescape c =
     (if c = CHR 0x22 \<or> c = CHR 0x5C \<or> c = CHR ''/'' then Some c
      else if c = CHR ''n'' then Some (CHR 0x0A)
      else if c = CHR ''r'' then Some (CHR 0x0D)
      else if c = CHR ''t'' then Some (CHR 0x09)
      else None)"

text \<open>The rest of a string literal after its opening quote.\<close>

fun read_string :: "string \<Rightarrow> (string \<times> string) option" where
  "read_string [] = None"
| "read_string (c # cs) =
     (if c = CHR 0x22 then Some ([], cs)
      else if c = CHR 0x5C then
        (case cs of
           [] \<Rightarrow> None
         | d # ds \<Rightarrow>
             (case unescape d of
                None \<Rightarrow> None
              | Some x \<Rightarrow> map_option (\<lambda>(s, rest). (x # s, rest)) (read_string ds)))
      else if (of_char c :: nat) < 32 then None
      else map_option (\<lambda>(s, rest). (c # s, rest)) (read_string cs))"

definition is_digit :: "char \<Rightarrow> bool" where
  "is_digit c = (48 \<le> (of_char c :: nat) \<and> (of_char c :: nat) \<le> 57)"

definition digit_val :: "char \<Rightarrow> nat" where
  "digit_val c = of_char c - 48"

definition read_nat :: "string \<Rightarrow> (nat \<times> string) option" where
  "read_nat s =
     (let ds = takeWhile is_digit s; rest = dropWhile is_digit s
      in if ds = [] \<or> (hd ds = CHR ''0'' \<and> tl ds \<noteq> []) then None
         else Some (foldl (\<lambda>a c. 10 * a + digit_val c) 0 ds, rest))"

definition read_number :: "string \<Rightarrow> (json \<times> string) option" where
  "read_number s =
     (case s of
        [] \<Rightarrow> None
      | c # cs \<Rightarrow>
          if c = CHR ''-'' then map_option (\<lambda>(n, rest). (JNum (- int n), rest)) (read_nat cs)
          else map_option (\<lambda>(n, rest). (JNum (int n), rest)) (read_nat s))"

text \<open>
  Recursive descent with a bound on the number of nested calls. A repeated member
  name overwrites the earlier value, as \<open>JSON.parse\<close> does.
\<close>

fun read_value :: "nat \<Rightarrow> string \<Rightarrow> (json \<times> string) option"
  and read_elements :: "nat \<Rightarrow> string \<Rightarrow> (json list \<times> string) option"
  and read_members :: "nat \<Rightarrow> string \<Rightarrow> ((string \<times> json) list \<times> string) option" where
  "read_value 0 s = None"
| "read_value (Suc n) s =
     (let t = skip_ws s in
      if take 4 t = ''null'' then Some (JNull, drop 4 t)
      else if take 4 t = ''true'' then Some (JBool True, drop 4 t)
      else if take 5 t = ''false'' then Some (JBool False, drop 5 t)
      else (case t of
              [] \<Rightarrow> None
            | c # cs \<Rightarrow>
                if c = CHR 0x22 then map_option (\<lambda>(x, rest). (JStr x, rest)) (read_string cs)
                else if c = CHR ''['' then
                  (if take 1 (skip_ws cs) = '']'' then Some (JArr [], drop 1 (skip_ws cs))
                   else map_option (\<lambda>(xs, rest). (JArr xs, rest)) (read_elements n cs))
                else if c = CHR ''{'' then
                  (if take 1 (skip_ws cs) = ''}'' then Some (JObj [], drop 1 (skip_ws cs))
                   else map_option
                          (\<lambda>(kvs, rest). (JObj (fold (\<lambda>(k, x). AList.update k x) kvs []), rest))
                          (read_members n cs))
                else read_number t))"
| "read_elements 0 s = None"
| "read_elements (Suc n) s =
     (case read_value n s of
        None \<Rightarrow> None
      | Some (x, rest) \<Rightarrow>
          (let t = skip_ws rest in
           if take 1 t = '','' then
             map_option (\<lambda>(xs, rest'). (x # xs, rest')) (read_elements n (drop 1 t))
           else if take 1 t = '']'' then Some ([x], drop 1 t)
           else None))"
| "read_members 0 s = None"
| "read_members (Suc n) s =
     (let t = skip_ws s in
      if take 1 t \<noteq> [CHR 0x22] then None
      else (case read_string (drop 1 t) of
              None \<Rightarrow> None
            | Some (k, rest) \<Rightarrow>
                (let u = skip_ws rest in
                 if take 1 u \<noteq> '':'' then None
                 else (case read_value n (drop 1 u) of
                         None \<Rightarrow> None
                       | Some (x, rest') \<Rightarrow>
                           (let w = skip_ws rest' in
                            if take 1 w = '','' then
                              map_option (\<lambda>(kvs, r). ((k, x) # kvs, r))
                                (read_members n (drop 1 w))
                            else if take 1 w = ''}'' then Some ([(k, x)], drop 1 w)
                            else None)))))"

definition json_read :: "string \<Rightarrow> json option" where
  "json_read s =
     (case read_value (2 * length s + 2) s of
        None \<Rightarrow> None
      | Some (x, rest) \<Rightarrow> if skip_ws rest = [] then Some x else None)"

definition text_api :: json_api where
  "text_api = \<lparr>stringify = json_text, stringify2 = json_text2 0, parse = json_read\<rparr>"

section \<open>A store to run the operations on\<close>

definition card1 :: json where
  "card1 = JObj [(''id'', JStr ''c1''),
                 (''title'', JStr ''Ports''),
                 (''description'', JStr ''Well known ports''),
                 (''subtopics'', JArr [JStr ''tcp'', JStr ''udp'']),
                 (''links'', JArr [JObj [(''label'', JStr ''iana''),
                                         (''url'', JStr ''https://iana.org'')]]),
                 (''image'', JNull),
                 (''createdAt'', JStr ''2024-01-02T08:00:00.000Z'')]"

definition card2 :: json where
  "card2 = JObj [(''id'', JStr ''c2''),
                 (''title'', JStr ''Scanning''),
                 (''description'', JStr []),
                 (''subtopics'', JArr []),
                 (''links'', JArr []),
                 (''image'', JNull),
                 (''createdAt'', JStr ''2024-01-03T08:00:00.000Z'')]"

definition topic1 :: json where
  "topic1 = JObj [(''id'', JStr ''t1''),
                  (''name'', JStr ''Linux''),
                  (''description'', JStr []),
                  (''contents'', JArr []),
                  (''createdAt'', JStr ''2024-01-01T08:00:00.000Z'')]"

definition topic2 :: json where
  "topic2 = JObj [(''id'', JStr ''t2''),
                  (''name'', JStr ''Networks''),
                  (''description'', JStr ''Notes on networks''),
                  (''contents'', JArr [card1, card2]),
                  (''createdAt'', JStr ''2024-01-01T09:00:00.000Z'')]"

definition form_data :: json where
  "form_data = JObj [(''title'', JStr ''Port scans''),
                     (''description'', JStr ''nmap''),
                     (''subtopics'', JArr [JStr ''syn'']),
                     (''links'', JArr []),
                     (''image'', JNull)]"

definition clock1 :: readings where
  "clock1 = \<lparr>date_now = 1704182400000, random36 = ''0.k9'',
             iso_created = ''2024-01-02T08:00:00.000Z'',
             iso_updated = ''2024-01-02T08:00:00.001Z''\<rparr>"

definition store1 :: "variant \<Rightarrow> manager" where
  "store1 v = \<lparr>topics = [topic1, topic2],
               localStorage = [storageKey v \<mapsto> json_text (JArr [topic1, topic2])]\<rparr>"

text \<open>Two readings of the clock and the random source, \<open>1/64\<close> and \<open>9/16\<close> in base 36.\<close>

definition clockA :: readings where
  "clockA = \<lparr>date_now = 1, random36 = ''0.0k9'', iso_created = [], iso_updated = []\<rparr>"

definition clockB :: readings where
  "clockB = \<lparr>date_now = 36, random36 = ''0.k9'', iso_created = [], iso_updated = []\<rparr>"

text \<open>
  A backup whose entries are not all records with an array of contents, and storages
  that hold a text that is not JSON.
\<close>

definition loose_backup :: json where
  "loose_backup = JArr [JObj [(''id'', JStr ''t7''), (''contents'', JStr ''none'')],
                        JStr ''ab'',
                        JObj [(''id'', JStr ''t8'')]]"

definition broken_storage :: "variant \<Rightarrow> (string \<rightharpoonup> string)" where
  "broken_storage v = [storageKey v \<mapsto> ''{'']"


section \<open>Searching and filtering by id\<close>

text \<open>
  A search answers with a position only at an object whose \<open>id\<close> is the string
  looked for. It answers with the first such position when no \<open>null\<close> comes
  before it, and with \<open>undefined\<close> on a list of records without that id.
\<close>

lemma has_id_obj: "has_id i t \<Longrightarrow> \<exists>kvs. t = JObj kvs \<and> map_of kvs ''id'' = Some (JStr i)"
  by (cases t) (simp_all add: has_id_def)

lemma findIndex_Some:
  "findIndex i ts = Inr (Some n) \<Longrightarrow> n < length ts \<and> has_id i (ts ! n)"
proof (induction ts arbitrary: n)
  case Nil
  then show ?case by simp
next
  case (Cons t ts)
  then show ?case
    by (cases n) (auto simp: has_id_def split: sum.splits if_splits option.splits)
qed

lemma findIndex_None:
  "JNull \<notin> set ts \<Longrightarrow> \<forall>t\<in>set ts. \<not> has_id i t \<Longrightarrow> findIndex i ts = Inr None"
proof (induction ts)
  case Nil
  then show ?case by simp
next
  case (Cons t ts)
  then show ?case by (cases t) (auto simp: has_id_def)
qed

lemma findIndex_first:
  "n < length ts \<Longrightarrow> has_id i (ts ! n) \<Longrightarrow>
   \<forall>k<n. ts ! k \<noteq> JNull \<and> \<not> has_id i (ts ! k) \<Longrightarrow> findIndex i ts = Inr (Some n)"
proof (induction ts arbitrary: n)
  case Nil
  then show ?case by simp
next
  case (Cons t ts)
  show ?case
  proof (cases n)
    case 0
    with Cons.prems show ?thesis by (simp add: has_id_def)
  next
    case (Suc k)
    from Cons.prems Suc have t: "t \<noteq> JNull" "\<not> has_id i t" by auto
    from Cons.prems Suc have "findIndex i ts = Inr (Some k)"
      by (intro Cons.IH) auto
    with t show ?thesis using Suc by (cases t) (auto simp: has_id_def)
  qed
qed

lemma filter_id_filter:
  "JNull \<notin> set ts \<Longrightarrow> filter_id i ts = Inr (filter (\<lambda>t. \<not> has_id i t) ts)"
proof (induction ts)
  case Nil
  then show ?case by simp
next
  case (Cons t ts)
  then show ?case by (cases t) (auto simp: has_id_def)
qed

lemma filter_id_null: "JNull \<in> set ts \<Longrightarrow> filter_id i ts = Inl TypeError"
proof (induction ts)
  case Nil
  then show ?case by simp
next
  case (Cons t ts)
  then show ?case by (cases t) (auto split: sum.splits)
qed

lemma filter_nothing: "\<forall>x\<in>set xs. P x \<Longrightarrow> filter P xs = xs"
  by (induction xs) auto

section \<open>Objects as property lists\<close>

lemma update_fresh: "k \<notin> fst ` set al \<Longrightarrow> AList.update k v al = al @ [(k, v)]"
  by (induction al) auto

lemma fold_update_distinct:
  "distinct (map fst (acc @ kvs)) \<Longrightarrow> fold (\<lambda>(k, x). AList.update k x) kvs acc = acc @ kvs"
proof (induction kvs arbitrary: acc)
  case Nil
  then show ?case by simp
next
  case (Cons p kvs)
  obtain k x where p: "p = (k, x)" by (cases p)
  from Cons.prems p have fresh: "k \<notin> fst ` set acc" by auto
  from Cons.prems p have "distinct (map fst ((acc @ [(k, x)]) @ kvs))" by auto
  from Cons.IH[OF this] show ?case using p fresh by (simp add: update_fresh)
qed

lemma map_of_fold_update:
  "map_of (fold (\<lambda>(k, x). AList.update k x) kvs acc) k =
     (case map_of (rev kvs) k of Some x \<Rightarrow> Some x | None \<Rightarrow> map_of acc k)"
proof (induction kvs arbitrary: acc)
  case Nil
  then show ?case by simp
next
  case (Cons p kvs)
  obtain k' x where p: "p = (k', x)" by (cases p)
  show ?case using p
    by (simp add: Cons.IH update_conv' map_add_def split: option.splits)
qed

lemma map_of_rev_distinct: "distinct (map fst kvs) \<Longrightarrow> map_of (rev kvs) = map_of kvs"
  by (simp add: distinct_rev map_of_inject_set rev_map[symmetric])

lemma map_of_spread:
  "map_of (spread v props) k =
     (case map_of (rev (own_props v)) k of Some x \<Rightarrow> Some x | None \<Rightarrow> map_of props k)"
  by (simp add: spread_def map_of_fold_update)

lemma spread_object_empty:
  "distinct (map fst kvs) \<Longrightarrow> spread (JObj kvs) [] = kvs"
  using fold_update_distinct[of "[]" kvs] by (simp add: spread_def)

lemma map_of_merge:
  assumes "distinct (map fst old)" and "distinct (map fst new)"
  shows "map_of (spread (JObj new) (spread (JObj old) [])) k =
           (case map_of new k of Some x \<Rightarrow> Some x | None \<Rightarrow> map_of old k)"
  using assms by (simp add: map_of_spread spread_object_empty map_of_rev_distinct)

lemma contents_of_array:
  "get_prop ''contents'' t = Inr (Some (JArr cs)) \<Longrightarrow> contents_of t = Inr cs"
  by (simp add: contents_of_def)

lemma set_contents_same:
  "get_prop ''contents'' t = Inr (Some (JArr cs)) \<Longrightarrow> set_prop ''contents'' (JArr cs) t = t"
  by (cases t) (simp_all add: update_triv)

section \<open>What saveData writes\<close>

lemma topics_saveData: "topics (saveData v js r m) = topics m"
  by (cases v) simp_all

lemma persisted_saveData: "persisted v js (saveData v js r m)"
  by (cases v) (simp_all add: persisted_def storageKey_def)

lemma saveData_blob:
  "localStorage (saveData v js r m) (storageKey v) = Some (stringify js (JArr (topics m)))"
  by (cases v) (simp_all add: storageKey_def)

lemma frame_saveData:
  "k \<notin> written_keys v \<Longrightarrow> localStorage (saveData v js r m) k = localStorage m k"
  by (cases v) (simp_all add: written_keys_def)

section \<open>The operations on the example store\<close>

lemma store1_topics: "topics (store1 v) = [topic1, topic2]"
  by (simp add: store1_def)

lemma find_t2: "findIndex ''t2'' [topic1, topic2] = Inr (Some 1)"
  by (simp add: topic1_def topic2_def)

lemma find_c2: "findIndex ''c2'' [card1, card2] = Inr (Some 1)"
  by (simp add: card1_def card2_def)

lemma contents_t2: "contents_of topic2 = Inr [card1, card2]"
  by (simp add: contents_of_def topic2_def)

lemma run_updateTopic:
  "\<exists>m'. updateTopic v text_api clock1 ''t2'' (JStr ''Nets'') (JStr []) (store1 v) = Inr (None, m')"
  by (simp add: updateTopic_def store1_topics find_t2 del: findIndex.simps)

lemma run_deleteTopic: "\<exists>m'. deleteTopic v text_api clock1 ''t2'' (store1 v) = Inr m'"
  by (simp add: deleteTopic_def store1_topics topic1_def topic2_def)

lemma run_addContent:
  "\<exists>res m'. addContent v text_api clock1 ''t2'' form_data (store1 v) = Inr (res, m')"
  by (simp add: addContent_def Let_def store1_topics find_t2 contents_t2 del: findIndex.simps)

lemma run_updateContent:
  "\<exists>m'. updateContent v text_api clock1 ''t2'' ''c2'' form_data (store1 v) = Inr (None, m')"
  by (simp add: updateContent_def store1_topics find_t2 contents_t2 find_c2 del: findIndex.simps)

lemma run_deleteContent:
  "\<exists>m'. deleteContent v text_api clock1 ''t2'' ''c2'' (store1 v) = Inr (None, m')"
  by (simp add: deleteContent_def store1_topics find_t2 contents_t2 card1_def card2_def del: findIndex.simps)

lemma read_not_json: "json_read ''not json'' = None"
  by code_simp

lemma read_object: "json_read ''{}'' = Some (JObj [])"
  by code_simp

lemma read_null_entry: "json_read ''[null]'' = Some (JArr [JNull])"
  by code_simp

lemma read_brace: "json_read ''{'' = None"
  by code_simp

lemma read_loose_backup: "json_read (json_text loose_backup) = Some loose_backup"
  by code_simp

lemma sanitize_loose_backup:
  "map_throwing sanitize
     [JObj [(''id'', JStr ''t7''), (''contents'', JStr ''none'')], JStr ''ab'', JObj [(''id'', JStr ''t8'')]]
   = Inr [JObj [(''id'', JStr ''t7''), (''contents'', JArr [])],
          JObj [(''0'', JStr ''a''), (''1'', JStr ''b''), (''contents'', JArr [])],
          JObj [(''id'', JStr ''t8''), (''contents'', JArr [])]]"
  by code_simp

section \<open>The store is written whole after every mutation\<close>

lemma persisted_updateTopic:
  "persisted v js m \<Longrightarrow> updateTopic v js r i name description m = Inr (res, m') \<Longrightarrow> persisted v js m'"
  by (auto simp: updateTopic_def Let_def persisted_saveData split: sum.splits option.splits)

lemma persisted_deleteTopic:
  "deleteTopic v js r i m = Inr m' \<Longrightarrow> persisted v js m'"
  by (auto simp: deleteTopic_def persisted_saveData split: sum.splits)

lemma persisted_addContent:
  "persisted v js m \<Longrightarrow> addContent v js r i contentData m = Inr (res, m') \<Longrightarrow> persisted v js m'"
  by (auto simp: addContent_def Let_def persisted_saveData split: sum.splits option.splits)

lemma persisted_updateContent:
  "persisted v js m \<Longrightarrow> updateContent v js r i c contentData m = Inr (res, m') \<Longrightarrow> persisted v js m'"
  by (auto simp: updateContent_def Let_def persisted_saveData split: sum.splits option.splits)

lemma persisted_deleteContent:
  "persisted v js m \<Longrightarrow> deleteContent v js r i c m = Inr (res, m') \<Longrightarrow> persisted v js m'"
  by (auto simp: deleteContent_def Let_def persisted_saveData split: sum.splits option.splits)

text \<open>
  C1. When the blob under the storage key is the serialisation of the topics list,
  it is so again after each of \<open>addTopic\<close>, \<open>updateTopic\<close>, \<open>deleteTopic\<close>,
  \<open>addContent\<close>, \<open>updateContent\<close> and \<open>deleteContent\<close> has completed: every
  write is the serialisation of the whole list, in both classes.
\<close>

theorem mutations_persist_whole_store:
  assumes "persisted v js m"
  shows "persisted v js (snd (addTopic v js r name description m)) \<and>
         (\<forall>res m'. updateTopic v js r i name' description' m = Inr (res, m') \<longrightarrow> persisted v js m') \<and>
         (\<forall>m'. deleteTopic v js r i m = Inr m' \<longrightarrow> persisted v js m') \<and>
         (\<forall>res m'. addContent v js r i contentData m = Inr (res, m') \<longrightarrow> persisted v js m') \<and>
         (\<forall>res m'. updateContent v js r i c contentData m = Inr (res, m') \<longrightarrow> persisted v js m') \<and>
         (\<forall>res m'. deleteContent v js r i c m = Inr (res, m') \<longrightarrow> persisted v js m')"
  using assms
  by (auto simp: addTopic_def Let_def persisted_saveData
           intro: persisted_updateTopic persisted_deleteTopic persisted_addContent
                  persisted_updateContent persisted_deleteContent)

theorem mutations_persist_whole_store_witness:
  "persisted Shared text_api (store1 Shared) \<and>
   persisted Shared text_api (snd (addTopic Shared text_api clock1 (JStr ''Web'') None (store1 Shared))) \<and>
   (\<exists>m'. updateTopic Shared text_api clock1 ''t2'' (JStr ''Nets'') (JStr []) (store1 Shared) = Inr (None, m')
       \<and> persisted Shared text_api m') \<and>
   (\<exists>m'. deleteTopic Shared text_api clock1 ''t2'' (store1 Shared) = Inr m'
       \<and> persisted Shared text_api m') \<and>
   (\<exists>res m'. addContent Shared text_api clock1 ''t2'' form_data (store1 Shared) = Inr (res, m')
       \<and> persisted Shared text_api m') \<and>
   (\<exists>m'. updateContent Shared text_api clock1 ''t2'' ''c2'' form_data (store1 Shared) = Inr (None, m')
       \<and> persisted Shared text_api m') \<and>
   (\<exists>m'. deleteContent Shared text_api clock1 ''t2'' ''c2'' (store1 Shared) = Inr (None, m')
       \<and> persisted Shared text_api m')"
proof -
  have h: "persisted Shared text_api (store1 Shared)"
    by (simp add: persisted_def store1_def text_api_def)
  show ?thesis
    using h
      mutations_persist_whole_store[OF h, where r = clock1 and name = "JStr ''Web''"
        and description = None and i = "''t2''" and name' = "JStr ''Nets''"
        and description' = "JStr []" and contentData = form_data and c = "''c2''"]
      run_updateTopic[of Shared] run_deleteTopic[of Shared] run_addContent[of Shared]
      run_updateContent[of Shared] run_deleteContent[of Shared]
    by blast
qed

section \<open>Export and import\<close>

lemma contents_is_array_obj:
  assumes "contents_is_array t"
  obtains kvs cs where "t = JObj kvs" and "map_of kvs ''contents'' = Some (JArr cs)"
proof (cases t)
  case (JObj kvs)
  with assms obtain x where x: "map_of kvs ''contents'' = Some x"
    by (auto simp: contents_is_array_def split: option.splits)
  with assms JObj obtain cs where "x = JArr cs"
    by (cases x) (auto simp: contents_is_array_def)
  with x JObj that show ?thesis by blast
qed (use assms in \<open>simp_all add: contents_is_array_def\<close>)

lemma sanitize_same:
  assumes "distinct_keys t" and "contents_is_array t"
  shows "sanitize t = Inr t"
proof -
  from assms(2) obtain kvs cs where t: "t = JObj kvs" and c: "map_of kvs ''contents'' = Some (JArr cs)"
    by (rule contents_is_array_obj)
  from assms(1) t have "spread t [] = kvs"
    by (simp add: distinct_keys_def spread_object_empty)
  with t c show ?thesis
    by (simp add: sanitize_def update_triv)
qed

lemma sanitize_contents: "sanitize t = Inr t' \<Longrightarrow> contents_is_array t'"
  by (auto simp: sanitize_def contents_is_array_def update_conv'
           split: sum.splits option.splits json.splits)

lemma sanitize_null: "sanitize JNull = Inl TypeError"
  by (simp add: sanitize_def)

lemma map_throwing_same:
  "\<forall>x\<in>set xs. f x = Inr x \<Longrightarrow> map_throwing f xs = Inr xs"
  by (induction xs) auto

lemma map_throwing_all:
  "map_throwing f xs = Inr ys \<Longrightarrow> \<forall>y\<in>set ys. \<exists>x\<in>set xs. f x = Inr y"
proof (induction xs arbitrary: ys)
  case Nil
  then show ?case by simp
next
  case (Cons x xs)
  then show ?case by (auto split: sum.splits)
qed

text \<open>
  C2. For a topics list of objects whose \<open>contents\<close> is an array, importing the
  text that \<open>exportData\<close> produced reports success and leaves the manager with a
  topics list equal to the exported one, provided \<open>JSON.parse\<close> reads that text back
  as the value \<open>JSON.stringify\<close> wrote. The import may run in any manager.
\<close>

theorem export_import_roundtrip:
  assumes "parse js (stringify2 js (JArr (topics m))) = Some (JArr (topics m))"
    and "\<forall>t\<in>set (topics m). distinct_keys t \<and> contents_is_array t"
  shows "\<exists>m'. importData js r (exportData js m) m0 = ((True, ''Data imported successfully!''), m')
              \<and> topics m' = topics m"
proof -
  from assms(2) have "map_throwing sanitize (topics m) = Inr (topics m)"
    by (intro map_throwing_same) (simp add: sanitize_same)
  with assms(1) show ?thesis
    by (simp add: importData_def exportData_def topics_saveData)
qed

theorem export_import_roundtrip_witness:
  "distinct_keys topic1 \<and> contents_is_array topic1 \<and>
   distinct_keys topic2 \<and> contents_is_array topic2 \<and>
   json_read (json_text2 0 (JArr [topic1, topic2])) = Some (JArr [topic1, topic2]) \<and>
   (\<exists>m'. importData text_api clock1 (exportData text_api (store1 Page))
               \<lparr>topics = [], localStorage = Map.empty\<rparr>
             = ((True, ''Data imported successfully!''), m')
          \<and> topics m' = [topic1, topic2])"
proof -
  have p: "json_read (json_text2 0 (JArr [topic1, topic2])) = Some (JArr [topic1, topic2])"
    by code_simp
  have d: "distinct_keys topic1" "contents_is_array topic1"
    "distinct_keys topic2" "contents_is_array topic2"
    by (simp_all add: distinct_keys_def contents_is_array_def topic1_def topic2_def)
  have h1: "parse text_api (stringify2 text_api (JArr (topics (store1 Page))))
              = Some (JArr (topics (store1 Page)))"
    using p by (simp add: text_api_def store1_def)
  have h2: "\<forall>t\<in>set (topics (store1 Page)). distinct_keys t \<and> contents_is_array t"
    using d by (simp add: store1_def)
  from export_import_roundtrip[OF h1 h2, of clock1 "\<lparr>topics = [], localStorage = Map.empty\<rparr>"]
  show ?thesis using p d by (simp add: store1_def)
qed

section \<open>Loading a text that is not JSON\<close>

lemma loadData_recovers:
  "st ''cyberlearn_data'' = Some d \<Longrightarrow> parse js d = None \<Longrightarrow> loadData js st = []"
  by (simp add: loadData_def)

lemma loadData_plain_throws:
  "st ''cyberlearn_data'' = Some d \<Longrightarrow> d \<noteq> [] \<Longrightarrow> parse js d = None
     \<Longrightarrow> loadData_plain js st = Inl SyntaxError"
  by (simp add: loadData_plain_def)

lemma loadData_shared_throws:
  "st (storageKey Shared) = Some d \<Longrightarrow> d \<noteq> [] \<Longrightarrow> parse js d = None
     \<Longrightarrow> loadData_shared js None st = Inl SyntaxError"
  by (simp add: loadData_shared_def)

text \<open>
  C3. With the text \<open>{\<close> under the storage key, the loader that parses inside
  \<open>try\<close> returns the empty list, while the loader of the other page scripts and
  the loader of the first class of \<open>script.js\<close> (with no \<open>data.json\<close>) throw the
  SyntaxError of \<open>JSON.parse\<close>: not every variant of the loader recovers.
\<close>

theorem loadData_unguarded_throws:
  "loadData_plain text_api (broken_storage Page) = Inl SyntaxError \<and>
   loadData_shared text_api None (broken_storage Shared) = Inl SyntaxError \<and>
   loadData text_api (broken_storage Page) = []"
  by (simp add: loadData_plain_def loadData_shared_def loadData_def broken_storage_def
        storageKey_def text_api_def read_brace)

section \<open>The keys of the storage\<close>

lemma frame_updateTopic:
  "k \<notin> written_keys v \<Longrightarrow> updateTopic v js r i name description m = Inr (res, m')
     \<Longrightarrow> localStorage m' k = localStorage m k"
  by (auto simp: updateTopic_def Let_def frame_saveData split: sum.splits option.splits)

lemma frame_deleteTopic:
  "k \<notin> written_keys v \<Longrightarrow> deleteTopic v js r i m = Inr m'
     \<Longrightarrow> localStorage m' k = localStorage m k"
  by (auto simp: deleteTopic_def frame_saveData split: sum.splits)

lemma frame_addContent:
  "k \<notin> written_keys v \<Longrightarrow> addContent v js r i contentData m = Inr (res, m')
     \<Longrightarrow> localStorage m' k = localStorage m k"
  by (auto simp: addContent_def Let_def frame_saveData split: sum.splits option.splits)

lemma frame_updateContent:
  "k \<notin> written_keys v \<Longrightarrow> updateContent v js r i c contentData m = Inr (res, m')
     \<Longrightarrow> localStorage m' k = localStorage m k"
  by (auto simp: updateContent_def Let_def frame_saveData split: sum.splits option.splits)

lemma frame_deleteContent:
  "k \<notin> written_keys v \<Longrightarrow> deleteContent v js r i c m = Inr (res, m')
     \<Longrightarrow> localStorage m' k = localStorage m k"
  by (auto simp: deleteContent_def Let_def frame_saveData split: sum.splits option.splits)

lemma frame_importData:
  "k \<notin> written_keys Page \<Longrightarrow> localStorage (snd (importData js r text m)) k = localStorage m k"
  by (auto simp: importData_def written_keys_def split: option.splits json.splits sum.splits)

lemma frame_importData_shared:
  "k \<notin> written_keys Shared
     \<Longrightarrow> localStorage (snd (importData_shared js r input confirmed m)) k = localStorage m k"
  by (auto simp: importData_shared_def written_keys_def split: option.splits json.splits)

lemma frame_loadData_shared:
  "k \<notin> written_keys Shared \<Longrightarrow> loadData_shared js fetched st = Inr (x, st') \<Longrightarrow> st' k = st k"
  by (auto simp: loadData_shared_def written_keys_def split: option.splits if_splits)

text \<open>
  C4, as stated, fails: \<open>saveData\<close> of the first class of \<open>script.js\<close> writes a
  second key, the storage key followed by \<open>_updated\<close>.
\<close>

theorem saveData_second_key:
  "localStorage (store1 Shared) ''cyberlearn_shared_data_updated'' = None \<and>
   localStorage (saveData Shared text_api clock1 (store1 Shared)) ''cyberlearn_shared_data_updated''
     = Some ''2024-01-02T08:00:00.001Z''"
  by (simp add: store1_def storageKey_def clock1_def)

text \<open>
  C4, amended. Every \<open>saveData\<close> call writes the serialised topics list under
  the storage key; in the first class of \<open>script.js\<close> it also writes the time of
  the save under the storage key followed by \<open>_updated\<close>; \<open>saveData\<close>, the six
  mutating operations, the two imports and the loader that writes leave every other
  key as it was.
\<close>

theorem saveData_keys:
  "localStorage (saveData v js r m) (storageKey v) = Some (stringify js (JArr (topics m))) \<and>
   localStorage (saveData Shared js r m) (storageKey Shared @ ''_updated'') = Some (iso_updated r) \<and>
   (\<forall>k. k \<notin> written_keys v \<longrightarrow>
      localStorage (saveData v js r m) k = localStorage m k \<and>
      localStorage (snd (addTopic v js r name description m)) k = localStorage m k \<and>
      (\<forall>res m'. updateTopic v js r i name' description' m = Inr (res, m')
         \<longrightarrow> localStorage m' k = localStorage m k) \<and>
      (\<forall>m'. deleteTopic v js r i m = Inr m' \<longrightarrow> localStorage m' k = localStorage m k) \<and>
      (\<forall>res m'. addContent v js r i contentData m = Inr (res, m')
         \<longrightarrow> localStorage m' k = localStorage m k) \<and>
      (\<forall>res m'. updateContent v js r i c contentData m = Inr (res, m')
         \<longrightarrow> localStorage m' k = localStorage m k) \<and>
      (\<forall>res m'. deleteContent v js r i c m = Inr (res, m')
         \<longrightarrow> localStorage m' k = localStorage m k)) \<and>
   (\<forall>k. k \<notin> written_keys Page \<longrightarrow>
      localStorage (snd (importData js r input m)) k = localStorage m k) \<and>
   (\<forall>k. k \<notin> written_keys Shared \<longrightarrow>
      localStorage (snd (importData_shared js r input confirmed m)) k = localStorage m k \<and>
      (\<forall>x st'. loadData_shared js fetched st = Inr (x, st') \<longrightarrow> st' k = st k))"
proof (intro conjI allI impI)
  show "localStorage (saveData v js r m) (storageKey v) = Some (stringify js (JArr (topics m)))"
    by (rule saveData_blob)
  show "localStorage (saveData Shared js r m) (storageKey Shared @ ''_updated'') = Some (iso_updated r)"
    by simp
next
  fix k assume k: "k \<notin> written_keys v"
  show "localStorage (saveData v js r m) k = localStorage m k"
    using k by (rule frame_saveData)
  show "localStorage (snd (addTopic v js r name description m)) k = localStorage m k"
    using k by (simp add: addTopic_def Let_def frame_saveData)
  show "localStorage m' k = localStorage m k"
    if "updateTopic v js r i name' description' m = Inr (res, m')" for res m'
    using k that by (rule frame_updateTopic)
  show "localStorage m' k = localStorage m k" if "deleteTopic v js r i m = Inr m'" for m'
    using k that by (rule frame_deleteTopic)
  show "localStorage m' k = localStorage m k"
    if "addContent v js r i contentData m = Inr (res, m')" for res m'
    using k that by (rule frame_addContent)
  show "localStorage m' k = localStorage m k"
    if "updateContent v js r i c contentData m = Inr (res, m')" for res m'
    using k that by (rule frame_updateContent)
  show "localStorage m' k = localStorage m k"
    if "deleteContent v js r i c m = Inr (res, m')" for res m'
    using k that by (rule frame_deleteContent)
next
  fix k assume "k \<notin> written_keys Page"
  then show "localStorage (snd (importData js r input m)) k = localStorage m k"
    by (rule frame_importData)
next
  fix k assume k: "k \<notin> written_keys Shared"
  show "localStorage (snd (importData_shared js r input confirmed m)) k = localStorage m k"
    using k by (rule frame_importData_shared)
  show "st' k = st k" if "loadData_shared js fetched st = Inr (x, st')" for x st'
    using k that by (rule frame_loadData_shared)
qed

theorem saveData_keys_witness:
  "''cyberlearn_shown_tip'' \<notin> written_keys Shared \<and>
   ''cyberlearn_shown_tip'' \<notin> written_keys Page \<and>
   localStorage (saveData Shared text_api clock1 (store1 Shared)) ''cyberlearn_shared_data''
     = Some (json_text (JArr [topic1, topic2])) \<and>
   localStorage (saveData Shared text_api clock1 (store1 Shared)) ''cyberlearn_shown_tip''
     = localStorage (store1 Shared) ''cyberlearn_shown_tip'' \<and>
   (\<exists>m'. updateTopic Shared text_api clock1 ''t2'' (JStr ''Nets'') (JStr []) (store1 Shared)
           = Inr (None, m')
      \<and> localStorage m' ''cyberlearn_shown_tip'' = localStorage (store1 Shared) ''cyberlearn_shown_tip'') \<and>
   (\<exists>m'. deleteTopic Shared text_api clock1 ''t2'' (store1 Shared) = Inr m'
      \<and> localStorage m' ''cyberlearn_shown_tip'' = localStorage (store1 Shared) ''cyberlearn_shown_tip'') \<and>
   (\<exists>res m'. addContent Shared text_api clock1 ''t2'' form_data (store1 Shared) = Inr (res, m')
      \<and> localStorage m' ''cyberlearn_shown_tip'' = localStorage (store1 Shared) ''cyberlearn_shown_tip'') \<and>
   (\<exists>m'. updateContent Shared text_api clock1 ''t2'' ''c2'' form_data (store1 Shared) = Inr (None, m')
      \<and> localStorage m' ''cyberlearn_shown_tip'' = localStorage (store1 Shared) ''cyberlearn_shown_tip'') \<and>
   (\<exists>m'. deleteContent Shared text_api clock1 ''t2'' ''c2'' (store1 Shared) = Inr (None, m')
      \<and> localStorage m' ''cyberlearn_shown_tip'' = localStorage (store1 Shared) ''cyberlearn_shown_tip'') \<and>
   localStorage (snd (importData text_api clock1 ''{}'' (store1 Shared))) ''cyberlearn_shown_tip''
     = localStorage (store1 Shared) ''cyberlearn_shown_tip'' \<and>
   localStorage (snd (importData_shared text_api clock1 ''{}'' True (store1 Shared)))
       ''cyberlearn_shown_tip''
     = localStorage (store1 Shared) ''cyberlearn_shown_tip'' \<and>
   (\<exists>st'. loadData_shared text_api (Some ''{}'') Map.empty = Inr (JObj [], st')
      \<and> st' ''cyberlearn_shown_tip'' = None)"
proof -
  have ks: "''cyberlearn_shown_tip'' \<notin> written_keys Shared"
    by (simp add: written_keys_def storageKey_def)
  have kp: "''cyberlearn_shown_tip'' \<notin> written_keys Page"
    by (simp add: written_keys_def storageKey_def)
  have l: "\<exists>st'. loadData_shared text_api (Some ''{}'') Map.empty = Inr (JObj [], st')"
    by (simp add: loadData_shared_def text_api_def read_object)
  note w = saveData_keys[where v = Shared and m = "store1 Shared" and js = text_api
        and r = clock1 and name = "JStr ''Web''" and description = None
        and i = "''t2''" and c = "''c2''" and contentData = form_data and input = "''{}''"
        and name' = "JStr ''Nets''" and description' = "JStr []" and confirmed = True
        and fetched = "Some ''{}''" and st = Map.empty]
  note blob = w[THEN conjunct1]
  note ops = w[THEN conjunct2, THEN conjunct2, THEN conjunct1, rule_format, OF ks]
  note imp = w[THEN conjunct2, THEN conjunct2, THEN conjunct2, THEN conjunct1, rule_format, OF kp]
  note shr = w[THEN conjunct2, THEN conjunct2, THEN conjunct2, THEN conjunct2, rule_format, OF ks]
  show ?thesis
  proof (intro conjI)
    show "''cyberlearn_shown_tip'' \<notin> written_keys Shared" by (rule ks)
    show "''cyberlearn_shown_tip'' \<notin> written_keys Page" by (rule kp)
    show "localStorage (saveData Shared text_api clock1 (store1 Shared)) ''cyberlearn_shared_data''
            = Some (json_text (JArr [topic1, topic2]))"
      using blob by (simp add: storageKey_def text_api_def store1_def)
    show "localStorage (saveData Shared text_api clock1 (store1 Shared)) ''cyberlearn_shown_tip''
            = localStorage (store1 Shared) ''cyberlearn_shown_tip''"
      using ops by (rule conjunct1)
    show "\<exists>m'. updateTopic Shared text_api clock1 ''t2'' (JStr ''Nets'') (JStr []) (store1 Shared)
             = Inr (None, m')
        \<and> localStorage m' ''cyberlearn_shown_tip'' = localStorage (store1 Shared) ''cyberlearn_shown_tip''"
      using ops run_updateTopic[of Shared] by blast
    show "\<exists>m'. deleteTopic Shared text_api clock1 ''t2'' (store1 Shared) = Inr m'
        \<and> localStorage m' ''cyberlearn_shown_tip'' = localStorage (store1 Shared) ''cyberlearn_shown_tip''"
      using ops run_deleteTopic[of Shared] by blast
    show "\<exists>res m'. addContent Shared text_api clock1 ''t2'' form_data (store1 Shared) = Inr (res, m')
        \<and> localStorage m' ''cyberlearn_shown_tip'' = localStorage (store1 Shared) ''cyberlearn_shown_tip''"
      using ops run_addContent[of Shared] by blast
    show "\<exists>m'. updateContent Shared text_api clock1 ''t2'' ''c2'' form_data (store1 Shared) = Inr (None, m')
        \<and> localStorage m' ''cyberlearn_shown_tip'' = localStorage (store1 Shared) ''cyberlearn_shown_tip''"
      using ops run_updateContent[of Shared] by blast
    show "\<exists>m'. deleteContent Shared text_api clock1 ''t2'' ''c2'' (store1 Shared) = Inr (None, m')
        \<and> localStorage m' ''cyberlearn_shown_tip'' = localStorage (store1 Shared) ''cyberlearn_shown_tip''"
      using ops run_deleteContent[of Shared] by blast
    show "localStorage (snd (importData text_api clock1 ''{}'' (store1 Shared))) ''cyberlearn_shown_tip''
            = localStorage (store1 Shared) ''cyberlearn_shown_tip''"
      by (rule imp)
    show "localStorage (snd (importData_shared text_api clock1 ''{}'' True (store1 Shared)))
              ''cyberlearn_shown_tip''
            = localStorage (store1 Shared) ''cyberlearn_shown_tip''"
      using shr by (rule conjunct1)
    show "\<exists>st'. loadData_shared text_api (Some ''{}'') Map.empty = Inr (JObj [], st')
        \<and> st' ''cyberlearn_shown_tip'' = None"
      using shr l by fastforce
  qed
qed

section \<open>Deleting and adding a topic\<close>

lemma deleteTopic_result:
  "JNull \<notin> set (topics m) \<Longrightarrow>
   deleteTopic v js r i m = Inr (saveData v js r (m\<lparr>topics := filter (\<lambda>t. \<not> has_id i t) (topics m)\<rparr>))"
  by (simp add: deleteTopic_def filter_id_filter)

text \<open>
  C5. \<open>deleteTopic(id)\<close> on a list of records leaves exactly the topics whose
  \<open>id\<close> is not the given one, in their order and as they were. (On a list that
  holds \<open>null\<close> the predicate of the filter throws.)
\<close>

theorem deleteTopic_filter:
  assumes "JNull \<notin> set (topics m)"
  shows "\<exists>m'. deleteTopic v js r i m = Inr m' \<and>
              topics m' = filter (\<lambda>t. \<not> has_id i t) (topics m)"
  using assms by (simp add: deleteTopic_result topics_saveData)

theorem deleteTopic_filter_witness:
  "JNull \<notin> set (topics (store1 Page)) \<and>
   (\<exists>m'. deleteTopic Page text_api clock1 ''t1'' (store1 Page) = Inr m' \<and> topics m' = [topic2])"
proof -
  have h: "JNull \<notin> set (topics (store1 Page))"
    by (simp add: store1_def topic1_def topic2_def)
  have f: "filter (\<lambda>t. \<not> has_id ''t1'' t) (topics (store1 Page)) = [topic2]"
    by (simp add: store1_def topic1_def topic2_def has_id_def)
  from deleteTopic_filter[OF h, of Page text_api clock1 "''t1''"] h f show ?thesis
    by simp
qed

text \<open>
  C6. \<open>addTopic(name, description)\<close> returns one new record of the shape
  \<open>{id, name, description, contents, createdAt}\<close>, with the generated id, the
  empty string for a description left out, no contents and the time of the call,
  and the list afterwards is the old list followed by that record.
\<close>

theorem addTopic_appends:
  "topics (snd (addTopic v js r name description m))
     = topics m @ [fst (addTopic v js r name description m)] \<and>
   fst (addTopic v js r name description m)
     = JObj [(''id'', JStr (generateId r)),
             (''name'', name),
             (''description'', (case description of None \<Rightarrow> JStr [] | Some d \<Rightarrow> d)),
             (''contents'', JArr []),
             (''createdAt'', JStr (iso_created r))]"
  by (simp add: addTopic_def Let_def topics_saveData)

section \<open>Updating a content card\<close>

text \<open>
  C7. When the first topic with \<open>topicId\<close> is at position \<open>n\<close>, its contents are
  the array \<open>cs\<close> and the first card with \<open>contentId\<close> is at position \<open>j\<close>,
  \<open>updateContent\<close> replaces that card, at its position, by an object in which every
  key of \<open>contentData\<close> has the value of \<open>contentData\<close> and every other key of the
  card has its old value; the other cards, the other properties of the topic and
  the other topics stay as they were.
\<close>

theorem updateContent_merges:
  assumes "n < length (topics m)" and "has_id topicId (topics m ! n)"
    and "\<forall>k<n. topics m ! k \<noteq> JNull \<and> \<not> has_id topicId (topics m ! k)"
    and "get_prop ''contents'' (topics m ! n) = Inr (Some (JArr cs))"
    and "j < length cs" and "has_id contentId (cs ! j)"
    and "\<forall>k<j. cs ! k \<noteq> JNull \<and> \<not> has_id contentId (cs ! k)"
    and "cs ! j = JObj old" and "distinct (map fst old)"
    and "contentData = JObj new" and "distinct (map fst new)"
  shows "\<exists>m' merged.
           updateContent v js r topicId contentId contentData m = Inr (None, m') \<and>
           topics m' = (topics m)[n := set_prop ''contents'' (JArr (cs[j := JObj merged]))
                                        (topics m ! n)] \<and>
           (\<forall>k. map_of merged k =
                  (case map_of new k of Some x \<Rightarrow> Some x | None \<Rightarrow> map_of old k))"
proof -
  let ?merged = "spread contentData (spread (cs ! j) [])"
  have 1: "findIndex topicId (topics m) = Inr (Some n)"
    using assms(1-3) by (rule findIndex_first)
  have 2: "contents_of (topics m ! n) = Inr cs"
    using assms(4) by (rule contents_of_array)
  have 3: "findIndex contentId cs = Inr (Some j)"
    using assms(5-7) by (rule findIndex_first)
  have run: "updateContent v js r topicId contentId contentData m =
      Inr (None, saveData v js r
             (m\<lparr>topics := (topics m)[n := set_prop ''contents'' (JArr (cs[j := JObj ?merged]))
                                            (topics m ! n)]\<rparr>))"
    by (simp add: updateContent_def 1 2 3)
  have look: "\<forall>k. map_of ?merged k =
      (case map_of new k of Some x \<Rightarrow> Some x | None \<Rightarrow> map_of old k)"
    using assms(8-11) by (simp add: map_of_merge)
  show ?thesis
  proof (intro exI conjI)
    show "updateContent v js r topicId contentId contentData m =
      Inr (None, saveData v js r
             (m\<lparr>topics := (topics m)[n := set_prop ''contents'' (JArr (cs[j := JObj ?merged]))
                                            (topics m ! n)]\<rparr>))"
      by (rule run)
    show "topics (saveData v js r
             (m\<lparr>topics := (topics m)[n := set_prop ''contents'' (JArr (cs[j := JObj ?merged]))
                                            (topics m ! n)]\<rparr>))
          = (topics m)[n := set_prop ''contents'' (JArr (cs[j := JObj ?merged])) (topics m ! n)]"
      by (simp add: topics_saveData)
    show "\<forall>k. map_of ?merged k =
      (case map_of new k of Some x \<Rightarrow> Some x | None \<Rightarrow> map_of old k)"
      by (rule look)
  qed
qed

theorem updateContent_merges_witness:
  "\<exists>m' merged.
     updateContent Page text_api clock1 ''t2'' ''c2'' form_data (store1 Page) = Inr (None, m') \<and>
     topics m' = (topics (store1 Page))
                   [Suc 0 := set_prop ''contents'' (JArr ([card1, card2][Suc 0 := JObj merged]))
                               (topics (store1 Page) ! Suc 0)] \<and>
     (\<forall>k. map_of merged k =
        (case map_of [(''title'', JStr ''Port scans''), (''description'', JStr ''nmap''),
                      (''subtopics'', JArr [JStr ''syn'']), (''links'', JArr []),
                      (''image'', JNull)] k of
           Some x \<Rightarrow> Some x
         | None \<Rightarrow>
             map_of [(''id'', JStr ''c2''), (''title'', JStr ''Scanning''),
                     (''description'', JStr []), (''subtopics'', JArr []),
                     (''links'', JArr []), (''image'', JNull),
                     (''createdAt'', JStr ''2024-01-03T08:00:00.000Z'')] k))"
proof (rule updateContent_merges)
  show "Suc 0 < length (topics (store1 Page))"
    by (simp add: store1_def)
  show "has_id ''t2'' (topics (store1 Page) ! Suc 0)"
    by (simp add: store1_def topic2_def has_id_def)
  show "\<forall>k<Suc 0. topics (store1 Page) ! k \<noteq> JNull \<and> \<not> has_id ''t2'' (topics (store1 Page) ! k)"
    by (simp add: store1_def topic1_def has_id_def)
  show "get_prop ''contents'' (topics (store1 Page) ! Suc 0) = Inr (Some (JArr [card1, card2]))"
    by (simp add: store1_def topic2_def)
  show "Suc 0 < length [card1, card2]"
    by simp
  show "has_id ''c2'' ([card1, card2] ! Suc 0)"
    by (simp add: card2_def has_id_def)
  show "\<forall>k<Suc 0. [card1, card2] ! k \<noteq> JNull \<and> \<not> has_id ''c2'' ([card1, card2] ! k)"
    by (simp add: card1_def has_id_def)
  show "[card1, card2] ! Suc 0 = JObj [(''id'', JStr ''c2''), (''title'', JStr ''Scanning''),
                     (''description'', JStr []), (''subtopics'', JArr []),
                     (''links'', JArr []), (''image'', JNull),
                     (''createdAt'', JStr ''2024-01-03T08:00:00.000Z'')]"
    by (simp add: card2_def)
  show "distinct (map fst [(''id'', JStr ''c2''), (''title'', JStr ''Scanning''),
                     (''description'', JStr []), (''subtopics'', JArr []),
                     (''links'', JArr []), (''image'', JNull),
                     (''createdAt'', JStr ''2024-01-03T08:00:00.000Z'')])"
    by simp
  show "form_data = JObj [(''title'', JStr ''Port scans''), (''description'', JStr ''nmap''),
                      (''subtopics'', JArr [JStr ''syn'']), (''links'', JArr []),
                      (''image'', JNull)]"
    by (simp add: form_data_def)
  show "distinct (map fst [(''title'', JStr ''Port scans''), (''description'', JStr ''nmap''),
                      (''subtopics'', JArr [JStr ''syn'']), (''links'', JArr []),
                      (''image'', JNull)])"
    by simp
qed

section \<open>Identifiers\<close>

lemma idA: "generateId clockA = ''10k9''"
  by (simp add: clockA_def generateId_def toString_def digit_char_def)

lemma idB: "generateId clockB = ''10k9''"
  by (simp add: clockB_def generateId_def toString_def digit_char_def)

text \<open>
  C8. The id is the time in base 36 followed by the random text after its first two
  characters, and two calls that differ in the time and in the random number can
  return the same id.
\<close>

theorem generateId_collision:
  "generateId r = toString 36 (date_now r) @ drop 2 (random36 r) \<and>
   (\<exists>a b. date_now a \<noteq> date_now b \<and> random36 a \<noteq> random36 b \<and> generateId a = generateId b)"
proof (intro conjI exI)
  show "generateId r = toString 36 (date_now r) @ drop 2 (random36 r)"
    by (rule generateId_def)
  show "date_now clockA \<noteq> date_now clockB"
    by (simp add: clockA_def clockB_def)
  show "random36 clockA \<noteq> random36 clockB"
    by (simp add: clockA_def clockB_def)
  show "generateId clockA = generateId clockB"
    by (simp only: idA idB)
qed

section \<open>Operations on a record that is not there\<close>

lemma updateTopic_missing:
  "JNull \<notin> set (topics m) \<Longrightarrow> \<forall>t\<in>set (topics m). \<not> has_id i t \<Longrightarrow>
   updateTopic v js r i name description m = Inr (None, m)"
  by (simp add: updateTopic_def findIndex_None)

lemma addContent_missing:
  "JNull \<notin> set (topics m) \<Longrightarrow> \<forall>t\<in>set (topics m). \<not> has_id i t \<Longrightarrow>
   addContent v js r i contentData m = Inr (None, m)"
  by (simp add: addContent_def findIndex_None)

lemma updateContent_missing_topic:
  "JNull \<notin> set (topics m) \<Longrightarrow> \<forall>t\<in>set (topics m). \<not> has_id i t \<Longrightarrow>
   updateContent v js r i c contentData m = Inr (None, m)"
  by (simp add: updateContent_def findIndex_None)

lemma deleteContent_missing_topic:
  "JNull \<notin> set (topics m) \<Longrightarrow> \<forall>t\<in>set (topics m). \<not> has_id i t \<Longrightarrow>
   deleteContent v js r i c m = Inr (None, m)"
  by (simp add: deleteContent_def findIndex_None)

lemma updateContent_missing_content:
  assumes "n < length (topics m)" and "has_id topicId (topics m ! n)"
    and "\<forall>k<n. topics m ! k \<noteq> JNull \<and> \<not> has_id topicId (topics m ! k)"
    and "get_prop ''contents'' (topics m ! n) = Inr (Some (JArr cs))"
    and "JNull \<notin> set cs" and "\<forall>x\<in>set cs. \<not> has_id contentId x"
  shows "updateContent v js r topicId contentId contentData m = Inr (None, m)"
proof -
  have "findIndex topicId (topics m) = Inr (Some n)"
    using assms(1-3) by (rule findIndex_first)
  moreover have "contents_of (topics m ! n) = Inr cs"
    using assms(4) by (rule contents_of_array)
  moreover have "findIndex contentId cs = Inr None"
    using assms(5,6) by (rule findIndex_None)
  ultimately show ?thesis by (simp add: updateContent_def)
qed

lemma deleteContent_missing_content:
  assumes "n < length (topics m)" and "has_id topicId (topics m ! n)"
    and "\<forall>k<n. topics m ! k \<noteq> JNull \<and> \<not> has_id topicId (topics m ! k)"
    and "get_prop ''contents'' (topics m ! n) = Inr (Some (JArr cs))"
    and "JNull \<notin> set cs" and "\<forall>x\<in>set cs. \<not> has_id contentId x"
  shows "deleteContent v js r topicId contentId m = Inr (None, saveData v js r m)"
proof -
  have "findIndex topicId (topics m) = Inr (Some n)"
    using assms(1-3) by (rule findIndex_first)
  moreover have "contents_of (topics m ! n) = Inr cs"
    using assms(4) by (rule contents_of_array)
  moreover have "filter_id contentId cs = Inr cs"
    using assms(5,6) by (simp add: filter_id_filter filter_nothing)
  moreover have "set_prop ''contents'' (JArr cs) (topics m ! n) = topics m ! n"
    using assms(4) by (rule set_contents_same)
  ultimately show ?thesis by (simp add: deleteContent_def)
qed

text \<open>
  C9. On a list of records none of which has the id \<open>i\<close>, \<open>updateTopic\<close>,
  \<open>addContent\<close>, \<open>updateContent\<close> and \<open>deleteContent\<close> return \<open>undefined\<close> and
  change nothing. When the topic is found and none of its cards has \<open>contentId\<close>,
  \<open>updateContent\<close> does the same, and \<open>deleteContent\<close> returns \<open>undefined\<close> and
  saves a topics list equal to the one before.
\<close>

theorem missing_record_noop:
  "(JNull \<notin> set (topics m) \<and> (\<forall>t\<in>set (topics m). \<not> has_id i t) \<longrightarrow>
      updateTopic v js r i name description m = Inr (None, m) \<and>
      addContent v js r i contentData m = Inr (None, m) \<and>
      updateContent v js r i c contentData m = Inr (None, m) \<and>
      deleteContent v js r i c m = Inr (None, m)) \<and>
   (n < length (topics m) \<and> has_id topicId (topics m ! n) \<and>
    (\<forall>k<n. topics m ! k \<noteq> JNull \<and> \<not> has_id topicId (topics m ! k)) \<and>
    get_prop ''contents'' (topics m ! n) = Inr (Some (JArr cs)) \<and>
    JNull \<notin> set cs \<and> (\<forall>x\<in>set cs. \<not> has_id contentId x) \<longrightarrow>
      updateContent v js r topicId contentId contentData m = Inr (None, m) \<and>
      deleteContent v js r topicId contentId m = Inr (None, saveData v js r m) \<and>
      topics (saveData v js r m) = topics m)"
proof (intro conjI impI; (elim conjE)?)
  assume a: "JNull \<notin> set (topics m)" "\<forall>t\<in>set (topics m). \<not> has_id i t"
  show "updateTopic v js r i name description m = Inr (None, m)"
    using a by (rule updateTopic_missing)
  show "addContent v js r i contentData m = Inr (None, m)"
    using a by (rule addContent_missing)
  show "updateContent v js r i c contentData m = Inr (None, m)"
    using a by (rule updateContent_missing_topic)
  show "deleteContent v js r i c m = Inr (None, m)"
    using a by (rule deleteContent_missing_topic)
next
  assume b: "n < length (topics m)" "has_id topicId (topics m ! n)"
    "\<forall>k<n. topics m ! k \<noteq> JNull \<and> \<not> has_id topicId (topics m ! k)"
    "get_prop ''contents'' (topics m ! n) = Inr (Some (JArr cs))"
    "JNull \<notin> set cs" "\<forall>x\<in>set cs. \<not> has_id contentId x"
  show "updateContent v js r topicId contentId contentData m = Inr (None, m)"
    using b by (rule updateContent_missing_content)
  show "deleteContent v js r topicId contentId m = Inr (None, saveData v js r m)"
    using b by (rule deleteContent_missing_content)
  show "topics (saveData v js r m) = topics m"
    by (rule topics_saveData)
qed

theorem missing_record_noop_witness:
  "updateTopic Page text_api clock1 ''t9'' (JStr ''Web'') (JStr []) (store1 Page)
     = Inr (None, store1 Page) \<and>
   addContent Page text_api clock1 ''t9'' form_data (store1 Page) = Inr (None, store1 Page) \<and>
   updateContent Page text_api clock1 ''t9'' ''c1'' form_data (store1 Page)
     = Inr (None, store1 Page) \<and>
   deleteContent Page text_api clock1 ''t9'' ''c1'' (store1 Page) = Inr (None, store1 Page) \<and>
   updateContent Page text_api clock1 ''t2'' ''c9'' form_data (store1 Page)
     = Inr (None, store1 Page) \<and>
   deleteContent Page text_api clock1 ''t2'' ''c9'' (store1 Page)
     = Inr (None, saveData Page text_api clock1 (store1 Page)) \<and>
   topics (saveData Page text_api clock1 (store1 Page)) = [topic1, topic2]"
proof -
  have a: "JNull \<notin> set (topics (store1 Page))"
    by (simp add: store1_def topic1_def topic2_def)
  have b: "list_all (\<lambda>t. \<not> has_id ''t9'' t) (topics (store1 Page))"
    by (simp add: store1_def topic1_def topic2_def has_id_def)
  have c: "Suc 0 < length (topics (store1 Page))" "has_id ''t2'' (topics (store1 Page) ! Suc 0)"
    "topics (store1 Page) ! 0 \<noteq> JNull \<and> \<not> has_id ''t2'' (topics (store1 Page) ! 0)"
    "get_prop ''contents'' (topics (store1 Page) ! Suc 0) = Inr (Some (JArr [card1, card2]))"
    by (simp_all add: store1_def topic1_def topic2_def has_id_def)
  have d: "JNull \<notin> set [card1, card2]" "list_all (\<lambda>x. \<not> has_id ''c9'' x) [card1, card2]"
    by (simp_all add: card1_def card2_def has_id_def)
  show ?thesis
    using a b c d
      missing_record_noop[where m = "store1 Page" and i = "''t9''" and v = Page
        and js = text_api and r = clock1 and name = "JStr ''Web''" and description = "JStr []"
        and contentData = form_data and c = "''c1''" and n = "Suc 0" and topicId = "''t2''"
        and cs = "[card1, card2]" and contentId = "''c9''"]
    by (simp add: list_all_iff store1_topics)
qed

section \<open>A failed import changes nothing\<close>

lemma importData_failure:
  "importData js r input m = ((ok, msg), m') \<Longrightarrow> \<not> ok \<Longrightarrow> m' = m"
  by (auto simp: importData_def split: option.splits json.splits sum.splits)

text \<open>
  C10. A text that \<open>JSON.parse\<close> rejects, or that parses to something other than
  an array, is reported to the callback as a failure and leaves the topics list and
  the storage as they were, as does every other failure; after a success every
  topic of the list is an object whose \<open>contents\<close> is an array.
\<close>

theorem importData_atomic:
  "(parse js input = None \<longrightarrow>
      importData js r input m
        = ((False, ''Error reading file. Please select a valid JSON file.''), m)) \<and>
   (\<forall>x. parse js input = Some x \<and> \<not> is_array x \<longrightarrow>
      importData js r input m
        = ((False, ''Invalid data format. Please select a valid backup file.''), m)) \<and>
   (\<forall>msg m'. importData js r input m = ((False, msg), m') \<longrightarrow> m' = m) \<and>
   (\<forall>msg m'. importData js r input m = ((True, msg), m') \<longrightarrow>
      list_all contents_is_array (topics m'))"
proof (intro conjI allI impI)
  assume "parse js input = None"
  then show "importData js r input m
        = ((False, ''Error reading file. Please select a valid JSON file.''), m)"
    by (simp add: importData_def)
next
  fix x assume "parse js input = Some x \<and> \<not> is_array x"
  then show "importData js r input m
        = ((False, ''Invalid data format. Please select a valid backup file.''), m)"
    by (cases x) (simp_all add: importData_def is_array_def)
next
  fix msg m' assume "importData js r input m = ((False, msg), m')"
  then show "m' = m" by (rule importData_failure) simp
next
  fix msg m' assume a: "importData js r input m = ((True, msg), m')"
  then obtain ts ts' where "map_throwing sanitize ts = Inr ts'" and "topics m' = ts'"
    by (auto simp: importData_def topics_saveData split: option.splits json.splits sum.splits)
  then show "list_all contents_is_array (topics m')"
    using map_throwing_all[of sanitize ts ts'] sanitize_contents
    by (auto simp: list_all_iff)
qed

theorem importData_atomic_witness:
  "importData text_api clock1 ''not json'' (store1 Page)
     = ((False, ''Error reading file. Please select a valid JSON file.''), store1 Page) \<and>
   importData text_api clock1 ''{}'' (store1 Page)
     = ((False, ''Invalid data format. Please select a valid backup file.''), store1 Page) \<and>
   importData text_api clock1 ''[null]'' (store1 Page)
     = ((False, ''Error reading file. Please select a valid JSON file.''), store1 Page) \<and>
   (\<exists>m'. importData text_api clock1 (json_text loose_backup) (store1 Page)
            = ((True, ''Data imported successfully!''), m') \<and>
          list_all contents_is_array (topics m') \<and>
          topics m' = [JObj [(''id'', JStr ''t7''), (''contents'', JArr [])],
                       JObj [(''0'', JStr ''a''), (''1'', JStr ''b''), (''contents'', JArr [])],
                       JObj [(''id'', JStr ''t8''), (''contents'', JArr [])]])"
proof -
  have 1: "parse text_api ''not json'' = None"
    by (simp add: text_api_def read_not_json)
  have 2: "parse text_api ''{}'' = Some (JObj []) \<and> \<not> is_array (JObj [])"
    by (simp add: text_api_def read_object is_array_def)
  have 3: "importData text_api clock1 ''[null]'' (store1 Page)
     = ((False, ''Error reading file. Please select a valid JSON file.''), store1 Page)"
    by (simp add: importData_def text_api_def read_null_entry sanitize_null)
  have 4: "\<exists>m'. importData text_api clock1 (json_text loose_backup) (store1 Page)
                 = ((True, ''Data imported successfully!''), m') \<and>
               topics m' = [JObj [(''id'', JStr ''t7''), (''contents'', JArr [])],
                            JObj [(''0'', JStr ''a''), (''1'', JStr ''b''), (''contents'', JArr [])],
                            JObj [(''id'', JStr ''t8''), (''contents'', JArr [])]]"
    unfolding importData_def
    by (simp add: text_api_def read_loose_backup del: saveData.simps)
       (simp add: loose_backup_def sanitize_loose_backup topics_saveData
             del: map_throwing.simps saveData.simps)
  show ?thesis
    using 1 2 3 4
      importData_atomic[of text_api "''not json''" clock1 "store1 Page"]
      importData_atomic[of text_api "''{}''" clock1 "store1 Page"]
      importData_atomic[of text_api "''[null]''" clock1 "store1 Page"]
      importData_atomic[of text_api "json_text loose_backup" clock1 "store1 Page"]
    by auto
qed

section \<open>The lists of the home pages\<close>

text \<open>
  The loader that sanitises returns objects whose \<open>contents\<close> is an array, and
  adding, updating and deleting a topic keep the list so. On the pages that have these
  operations only, no topics list holds \<open>null\<close> and \<open>deleteTopic\<close> never throws.
\<close>

lemma contents_is_array_not_null: "contents_is_array t \<Longrightarrow> t \<noteq> JNull"
  by (auto simp: contents_is_array_def)

lemma contents_is_array_set_prop:
  "contents_is_array t \<Longrightarrow> k \<noteq> ''contents'' \<Longrightarrow> contents_is_array (set_prop k x t)"
  by (cases t) (simp_all add: contents_is_array_def update_conv')

lemma loadData_contents: "list_all contents_is_array (loadData js st)"
proof -
  have "list_all contents_is_array ts'" if "map_throwing sanitize ts = Inr ts'" for ts ts'
    using map_throwing_all[OF that] sanitize_contents by (auto simp: list_all_iff)
  then show ?thesis
    by (auto simp: loadData_def split: option.splits json.splits sum.splits)
qed

lemma addTopic_contents:
  "list_all contents_is_array (topics m)
     \<Longrightarrow> list_all contents_is_array (topics (snd (addTopic v js r name description m)))"
  by (simp add: addTopic_def Let_def topics_saveData contents_is_array_def)

lemma updateTopic_contents:
  assumes "list_all contents_is_array (topics m)"
    and "updateTopic v js r i name description m = Inr (res, m')"
  shows "list_all contents_is_array (topics m')"
proof (cases "findIndex i (topics m)")
  case (Inl e)
  with assms(2) show ?thesis by (simp add: updateTopic_def)
next
  case (Inr found)
  show ?thesis
  proof (cases found)
    case None
    with Inr assms show ?thesis by (simp add: updateTopic_def)
  next
    case (Some n)
    with Inr have n: "n < length (topics m)" by (simp add: findIndex_Some)
    with assms(1) have "contents_is_array (topics m ! n)"
      by (simp add: list_all_length)
    then have "contents_is_array
        (set_prop ''description'' description (set_prop ''name'' name (topics m ! n)))"
      by (simp add: contents_is_array_set_prop)
    moreover from Inr Some assms(2) have "topics m' = (topics m)
        [n := set_prop ''description'' description (set_prop ''name'' name (topics m ! n))]"
      by (auto simp: updateTopic_def Let_def topics_saveData)
    ultimately show ?thesis
      using assms(1) by (auto simp: list_all_iff dest: set_update_subset_insert[THEN subsetD])
  qed
qed

lemma deleteTopic_contents:
  assumes "list_all contents_is_array (topics m)" and "deleteTopic v js r i m = Inr m'"
  shows "list_all contents_is_array (topics m')"
proof -
  from assms(1) have "JNull \<notin> set (topics m)"
    by (auto simp: list_all_iff dest: contents_is_array_not_null)
  from deleteTopic_result[OF this, of v js r i] assms show ?thesis
    by (auto simp: topics_saveData list_all_iff)
qed

lemma deleteTopic_completes:
  "list_all contents_is_array (topics m) \<Longrightarrow> \<exists>m'. deleteTopic v js r i m = Inr m'"
  using deleteTopic_result[of m v js r i]
  by (auto simp: list_all_iff dest: contents_is_array_not_null)

end
